theory Spec2Isabelle
  imports Main
begin

section \<open>Recipe Explorer backend: data model\<close>

text \<open>
  The backend is a set of FastAPI handlers over a relational store. The store is modelled
  as a record of its three tables and the two id sequences; every handler takes the store
  and returns its result together with the store after the request. An exception raised by
  a handler is the \<open>Inl\<close> branch of the result.
\<close>

datatype error =
    HTTPException nat string   \<comment> \<open>status code, detail\<close>
  | MultipleResultsFound       \<comment> \<open>raised by \<open>scalar_one_or_none\<close> on more than one row\<close>
  | DataError                  \<comment> \<open>the database rejects the statement\<close>
  | MissingGreenlet            \<comment> \<open>a lazy load attempted through an \<open>AsyncSession\<close>\<close>

text \<open>
  \<open>db_models.py\<close>. The column \<open>id\<close> of users is \<open>uid\<close> here and the column \<open>id\<close> of
  recipes is \<open>rid\<close>, since \<open>id\<close> is the identity function of HOL. The type \<open>'h\<close> is the
  type of password hashes.
\<close>

record 'h user =
  uid :: int
  user_email :: string
  hashed_password :: 'h
  is_active :: bool

text \<open>
  \<open>models.py\<close>: \<open>RecipeBase\<close>, and \<open>RecipeResponse\<close> which extends it. The table row
  \<open>Recipe\<close> of \<open>db_models.py\<close> has the columns of \<open>RecipeBase\<close>, \<open>id\<close> and \<open>owner_id\<close>.
\<close>

record recipe_base =
  title :: string
  description :: "string option"
  ingredients :: "string list"
  instructions :: "string list"

record recipe = recipe_base +
  rid :: int
  owner_id :: int

record recipe_response = recipe +
  is_favorite :: bool

record recipe_list_response =
  recipes_page :: "recipe_response list"
  total :: int

text \<open>\<open>UserCreate\<close> and \<open>UserLogin\<close> have the same two fields.\<close>

record user_create =
  email :: string
  password :: string

record user_response =
  resp_id :: int
  resp_email :: string
  resp_is_active :: bool

text \<open>
  \<open>RecipeUpdate\<close> inherits the fields of \<open>RecipeBase\<close>: \<open>title\<close>, \<open>ingredients\<close> and
  \<open>instructions\<close> are required, \<open>description\<close> has a default. Pydantic records which fields
  the request supplied; only \<open>description\<close> can be left out. \<open>None\<close> is a description
  that was not supplied, \<open>Some None\<close> one supplied as null.
\<close>

record recipe_update =
  upd_title :: string
  upd_description :: "string option option"
  upd_ingredients :: "string list"
  upd_instructions :: "string list"

text \<open>
  The store. \<open>favorites\<close> is the association table \<open>favorites_table\<close>, a row being
  \<open>(user_id, recipe_id)\<close>. The sequences hold the next id the database hands out.
\<close>

record 'h store =
  users :: "'h user list"
  recipes :: "recipe list"
  favorites :: "(int \<times> int) list"
  users_id_seq :: int
  recipes_id_seq :: int

text \<open>\<open>Result.scalar_one_or_none()\<close>\<close>

fun scalar_one_or_none :: "'a list \<Rightarrow> error + 'a option" where
  "scalar_one_or_none [] = Inr None"
| "scalar_one_or_none [x] = Inr (Some x)"
| "scalar_one_or_none (x # y # zs) = Inl MultipleResultsFound"

text \<open>\<open>db.get(Recipe, recipe_id)\<close>: the row with that primary key, if there is one.\<close>

definition db_get_recipe :: "'h store \<Rightarrow> int \<Rightarrow> recipe option" where
  "db_get_recipe db recipe_id = find (\<lambda>r. rid r = recipe_id) (recipes db)"

section \<open>Authentication (auth.py)\<close>

text \<open>
  The two libraries behind \<open>auth.py\<close> are parameters of the model: \<open>pwd_context\<close>
  (passlib, bcrypt) with its random salt made an argument, and \<open>jose.jwt\<close> with the secret
  and the algorithm fixed. \<open>jwt_decode\<close> takes the current time and returns \<open>None\<close> where
  the library raises a \<open>JWTError\<close>. The type \<open>'t\<close> is the type of tokens.
\<close>

record claims =
  sub :: "int option"
  exp :: int

record ('h, 't) libs =
  pwd_hash :: "string \<Rightarrow> string \<Rightarrow> 'h"
  pwd_verify :: "string \<Rightarrow> 'h \<Rightarrow> bool"
  jwt_encode :: "claims \<Rightarrow> 't"
  jwt_decode :: "'t \<Rightarrow> int \<Rightarrow> claims option"

definition ACCESS_TOKEN_EXPIRE_MINUTES :: int where
  "ACCESS_TOKEN_EXPIRE_MINUTES = 60 * 24 * 7"

definition hash_password :: "('h, 't) libs \<Rightarrow> string \<Rightarrow> string \<Rightarrow> 'h" where
  "hash_password L salt pw = pwd_hash L salt pw"

definition verify_password :: "('h, 't) libs \<Rightarrow> string \<Rightarrow> 'h \<Rightarrow> bool" where
  "verify_password L pw hashed = pwd_verify L pw hashed"

text \<open>
  \<open>create_access_token\<close>: times are seconds. \<open>if expires_delta\<close> is false for a missing
  delta and for a delta of zero.
\<close>

definition create_access_token :: "('h, 't) libs \<Rightarrow> int option \<Rightarrow> int option \<Rightarrow> int \<Rightarrow> 't" where
  "create_access_token L data_sub expires_delta now =
     (let expire =
        (case expires_delta of
           Some d \<Rightarrow> if d \<noteq> 0 then now + d else now + ACCESS_TOKEN_EXPIRE_MINUTES * 60
         | None \<Rightarrow> now + ACCESS_TOKEN_EXPIRE_MINUTES * 60)
      in jwt_encode L \<lparr>sub = data_sub, exp = expire\<rparr>)"

definition credentials_exception :: error where
  "credentials_exception = HTTPException 401 ''Could not validate credentials''"

text \<open>
  \<open>oauth2_scheme = OAuth2PasswordBearer(tokenUrl=...)\<close>, with \<open>auto_error\<close> left at its
  default: a request without a bearer token is answered 401.
\<close>

definition oauth2_scheme :: "'t option \<Rightarrow> error + 't" where
  "oauth2_scheme bearer =
     (case bearer of None \<Rightarrow> Inl (HTTPException 401 ''Not authenticated'') | Some t \<Rightarrow> Inr t)"

text \<open>\<open>get_current_user\<close>, with its dependency on \<open>oauth2_scheme\<close>.\<close>

definition get_current_user :: "('h, 't) libs \<Rightarrow> 'h store \<Rightarrow> 't option \<Rightarrow> int \<Rightarrow> error + 'h user" where
  "get_current_user L db bearer now =
     (case oauth2_scheme bearer of
        Inl e \<Rightarrow> Inl e
      | Inr token \<Rightarrow>
         (case jwt_decode L token now of
            None \<Rightarrow> Inl credentials_exception
          | Some payload \<Rightarrow>
             (case sub payload of
                None \<Rightarrow> Inl credentials_exception
              | Some user_id \<Rightarrow>
                 (case scalar_one_or_none [u \<leftarrow> users db. uid u = user_id] of
                    Inl e \<Rightarrow> Inl e
                  | Inr None \<Rightarrow> Inl credentials_exception
                  | Inr (Some user) \<Rightarrow> Inr user))))"

section \<open>Registration and login (auth_router.py)\<close>

definition register :: "('h, 't) libs \<Rightarrow> string \<Rightarrow> user_create \<Rightarrow> 'h store \<Rightarrow> (error + user_response) \<times> 'h store" where
  "register L salt user db =
     (case scalar_one_or_none [u \<leftarrow> users db. user_email u = email user] of
        Inl e \<Rightarrow> (Inl e, db)
      | Inr (Some u) \<Rightarrow> (Inl (HTTPException 400 ''Email already registered''), db)
      | Inr None \<Rightarrow>
         (let hashed_pw = hash_password L salt (password user);
              db_user = \<lparr>uid = users_id_seq db, user_email = email user,
                         hashed_password = hashed_pw, is_active = True\<rparr>;
              db' = db\<lparr>users := users db @ [db_user], users_id_seq := users_id_seq db + 1\<rparr>
          in (Inr \<lparr>resp_id = uid db_user, resp_email = user_email db_user,
                    resp_is_active = is_active db_user\<rparr>, db')))"

text \<open>
  \<open>login\<close>: the test \<open>not db_user or not verify_password(...)\<close> raises the same exception
  on both sides of the \<open>or\<close>.
\<close>

definition login :: "('h, 't) libs \<Rightarrow> int \<Rightarrow> user_create \<Rightarrow> 'h store \<Rightarrow> error + 't" where
  "login L now user db =
     (case scalar_one_or_none [u \<leftarrow> users db. user_email u = email user] of
        Inl e \<Rightarrow> Inl e
      | Inr None \<Rightarrow> Inl (HTTPException 401 ''Incorrect email or password'')
      | Inr (Some db_user) \<Rightarrow>
         (if \<not> verify_password L (password user) (hashed_password db_user)
          then Inl (HTTPException 401 ''Incorrect email or password'')
          else Inr (create_access_token L (Some (uid db_user)) None now)))"

definition get_me :: "('h, 't) libs \<Rightarrow> 'h store \<Rightarrow> 't option \<Rightarrow> int \<Rightarrow> error + user_response" where
  "get_me L db bearer now =
     (case get_current_user L db bearer now of
        Inl e \<Rightarrow> Inl e
      | Inr current_user \<Rightarrow>
          Inr \<lparr>resp_id = uid current_user, resp_email = user_email current_user,
               resp_is_active = is_active current_user\<rparr>)"

section \<open>Recipes and favorites (recipe_router.py)\<close>

text \<open>
  The handlers below are the bodies of the endpoints: they take the \<open>current_user\<close> that
  the dependency resolved. The endpoints with their dependency follow them.
\<close>

definition to_response :: "recipe \<Rightarrow> bool \<Rightarrow> recipe_response" where
  "to_response r fav =
     \<lparr>title = title r, description = description r, ingredients = ingredients r,
      instructions = instructions r, rid = rid r, owner_id = owner_id r, is_favorite = fav\<rparr>"

definition create_recipe :: "recipe_base \<Rightarrow> 'h user \<Rightarrow> 'h store \<Rightarrow> (error + recipe_response) \<times> 'h store" where
  "create_recipe recipe current_user db =
     (let db_recipe = \<lparr>title = title recipe, description = description recipe,
                        ingredients = ingredients recipe, instructions = instructions recipe,
                        rid = recipes_id_seq db, owner_id = uid current_user\<rparr>;
          db' = db\<lparr>recipes := recipes db @ [db_recipe], recipes_id_seq := recipes_id_seq db + 1\<rparr>
      in (Inr (to_response (db_recipe\<lparr>owner_id := uid current_user\<rparr>) False), db'))"

subsection \<open>The search filter\<close>

text \<open>
  \<open>ilike\<close> is the SQL operator \<open>ILIKE\<close>: in the pattern \<open>%\<close> stands for any sequence of
  characters, \<open>_\<close> for any one character, and a backslash makes the character after it
  literal; a pattern that ends in a lone backslash is an error. Letters are compared
  without case.
\<close>

datatype like_tok = AnySeq | AnyOne | Lit char

definition like_tok_of :: "char \<Rightarrow> like_tok" where
  "like_tok_of c = (if c = CHR ''%'' then AnySeq else if c = CHR ''_'' then AnyOne else Lit c)"

fun like_parse :: "string \<Rightarrow> like_tok list option" where
  "like_parse [] = Some []"
| "like_parse [c] = (if c = CHR 0x5C then None else Some [like_tok_of c])"
| "like_parse (c # d # ds) =
     (if c = CHR 0x5C then map_option ((#) (Lit d)) (like_parse ds)
      else map_option ((#) (like_tok_of c)) (like_parse (d # ds)))"

fun like_match :: "like_tok list \<Rightarrow> string \<Rightarrow> bool" where
  "like_match [] s = (s = [])"
| "like_match (AnySeq # ps) [] = like_match ps []"
| "like_match (AnySeq # ps) (x # s) = (like_match ps (x # s) \<or> like_match (AnySeq # ps) s)"
| "like_match (AnyOne # ps) [] = False"
| "like_match (AnyOne # ps) (x # s) = like_match ps s"
| "like_match (Lit c # ps) [] = False"
| "like_match (Lit c # ps) (x # s) = (c = x \<and> like_match ps s)"

definition lower_char :: "char \<Rightarrow> char" where
  "lower_char c =
     (if (65::nat) \<le> of_char c \<and> of_char c \<le> (90::nat) then char_of (of_char c + (32::nat)) else c)"

definition lower :: "string \<Rightarrow> string" where
  "lower s = map lower_char s"

definition ilike :: "string \<Rightarrow> string \<Rightarrow> error + bool" where
  "ilike s pattern =
     (case like_parse (lower pattern) of
        None \<Rightarrow> Inl DataError
      | Some toks \<Rightarrow> Inr (like_match toks (lower s)))"

text \<open>
  The \<open>where\<close> clause of \<open>browse_recipes\<close> on one row:
  \<open>or_(title.ilike(f"%{q}%"), description.ilike(f"%{q}%"), ingredients.any(q))\<close>.
  A null description makes its disjunct null, which counts as false in the \<open>or_\<close>.
\<close>

definition search_clause :: "string \<Rightarrow> recipe \<Rightarrow> error + bool" where
  "search_clause q r =
     (case ilike (title r) (''%'' @ q @ ''%'') of
        Inl e \<Rightarrow> Inl e
      | Inr in_title \<Rightarrow>
         (case (case description r of None \<Rightarrow> Inr False | Some d \<Rightarrow> ilike d (''%'' @ q @ ''%'')) of
            Inl e \<Rightarrow> Inl e
          | Inr in_description \<Rightarrow> Inr (in_title \<or> in_description \<or> q \<in> set (ingredients r))))"

fun select_where :: "('a \<Rightarrow> error + bool) \<Rightarrow> 'a list \<Rightarrow> error + 'a list" where
  "select_where p [] = Inr []"
| "select_where p (x # xs) =
     (case p x of
        Inl e \<Rightarrow> Inl e
      | Inr b \<Rightarrow>
         (case select_where p xs of
            Inl e \<Rightarrow> Inl e
          | Inr ys \<Rightarrow> Inr (if b then x # ys else ys)))"

text \<open>
  \<open>select(Recipe.id).join(Recipe.favorited_by).where(User.id == current_user.id)\<close>: recipes
  joined to users through the association table.
\<close>

definition favorite_ids :: "'h store \<Rightarrow> int \<Rightarrow> int list" where
  "favorite_ids db user_id =
     [rid r. r \<leftarrow> recipes db, f \<leftarrow> favorites db, snd f = rid r,
             u \<leftarrow> users db, uid u = fst f, uid u = user_id]"

text \<open>
  \<open>browse_recipes\<close>. Rows come in table order, the query having no \<open>order_by\<close>. A negative
  \<open>skip\<close> or \<open>limit\<close> is refused by the database. \<open>if q\<close> is false for a missing and
  for an empty search string.
\<close>

definition browse_recipes :: "'h store \<Rightarrow> string option \<Rightarrow> int \<Rightarrow> int \<Rightarrow> 'h user option \<Rightarrow> error + recipe_list_response" where
  "browse_recipes db q skip limit current_user =
     (case (case q of
              None \<Rightarrow> Inr (recipes db)
            | Some qs \<Rightarrow> if qs \<noteq> [] then select_where (search_clause qs) (recipes db)
                         else Inr (recipes db)) of
        Inl e \<Rightarrow> Inl e
      | Inr rows \<Rightarrow>
         (if skip < 0 \<or> limit < 0 then Inl DataError
          else
            (let page = take (nat limit) (drop (nat skip) rows);
                 fav_ids = (case current_user of
                              None \<Rightarrow> []
                            | Some u \<Rightarrow> favorite_ids db (uid u))
             in Inr \<lparr>recipes_page = map (\<lambda>r. to_response r (rid r \<in> set fav_ids)) page,
                     total = int (length page)\<rparr>)))"

text \<open>
  \<open>get_recipe\<close>: \<open>bool(fav.scalar())\<close> is the truth value of the first id of the result,
  false when there is no row.
\<close>

definition get_recipe :: "'h store \<Rightarrow> int \<Rightarrow> 'h user option \<Rightarrow> error + recipe_response" where
  "get_recipe db recipe_id current_user =
     (case db_get_recipe db recipe_id of
        None \<Rightarrow> Inl (HTTPException 404 ''Recipe not found'')
      | Some recipe \<Rightarrow>
         (let is_fav =
            (case current_user of
               None \<Rightarrow> False
             | Some u \<Rightarrow>
                (case [i \<leftarrow> favorite_ids db (uid u). i = recipe_id] of
                   [] \<Rightarrow> False
                 | i # _ \<Rightarrow> i \<noteq> 0))
          in Inr (to_response recipe is_fav)))"

subsection \<open>Update and delete\<close>

text \<open>
  \<open>recipe_update.dict(exclude_unset=True)\<close>: the supplied fields, in the order of the
  schema, and \<open>setattr\<close> on the row.
\<close>

datatype pyval = PStr string | PNone | PList "string list"

definition dict_exclude_unset :: "recipe_update \<Rightarrow> (string \<times> pyval) list" where
  "dict_exclude_unset u =
     [(''title'', PStr (upd_title u))] @
     (case upd_description u of
        None \<Rightarrow> []
      | Some None \<Rightarrow> [(''description'', PNone)]
      | Some (Some d) \<Rightarrow> [(''description'', PStr d)]) @
     [(''ingredients'', PList (upd_ingredients u)),
      (''instructions'', PList (upd_instructions u))]"

fun setattr :: "recipe \<Rightarrow> string \<Rightarrow> pyval \<Rightarrow> recipe" where
  "setattr r k (PStr v) =
     (if k = ''title'' then r\<lparr>title := v\<rparr>
      else if k = ''description'' then r\<lparr>description := Some v\<rparr>
      else r)"
| "setattr r k PNone = (if k = ''description'' then r\<lparr>description := None\<rparr> else r)"
| "setattr r k (PList v) =
     (if k = ''ingredients'' then r\<lparr>ingredients := v\<rparr>
      else if k = ''instructions'' then r\<lparr>instructions := v\<rparr>
      else r)"

definition update_recipe :: "int \<Rightarrow> recipe_update \<Rightarrow> 'h user \<Rightarrow> 'h store \<Rightarrow> (error + recipe_response) \<times> 'h store" where
  "update_recipe recipe_id recipe_update current_user db =
     (case db_get_recipe db recipe_id of
        None \<Rightarrow> (Inl (HTTPException 404 ''Recipe not found''), db)
      | Some db_recipe \<Rightarrow>
         (if owner_id db_recipe \<noteq> uid current_user then (Inl (HTTPException 403 ''Forbidden''), db)
          else
            (let db_recipe' = fold (\<lambda>(k, v) r. setattr r k v) (dict_exclude_unset recipe_update) db_recipe;
                 db' = db\<lparr>recipes := map (\<lambda>r. if rid r = recipe_id then db_recipe' else r) (recipes db)\<rparr>
             in (Inr (to_response db_recipe' False), db'))))"

text \<open>
  \<open>delete_recipe\<close>: \<open>db.delete(db_recipe)\<close> deletes the row and, the relationship
  \<open>favorited_by\<close> having \<open>secondary=favorites_table\<close>, the rows of the association table that
  refer to it.
\<close>

definition delete_recipe :: "int \<Rightarrow> 'h user \<Rightarrow> 'h store \<Rightarrow> (error + unit) \<times> 'h store" where
  "delete_recipe recipe_id current_user db =
     (case db_get_recipe db recipe_id of
        None \<Rightarrow> (Inl (HTTPException 404 ''Recipe not found''), db)
      | Some db_recipe \<Rightarrow>
         (if owner_id db_recipe \<noteq> uid current_user then (Inl (HTTPException 403 ''Forbidden''), db)
          else (Inr (), db\<lparr>recipes := [r \<leftarrow> recipes db. rid r \<noteq> rid db_recipe],
                            favorites := [f \<leftarrow> favorites db. snd f \<noteq> rid db_recipe]\<rparr>)))"

subsection \<open>Favorites\<close>

text \<open>
  \<open>current_user.favorites\<close>: \<open>db_models.py\<close> declares the relationship without a loader
  strategy, so it is lazy, and \<open>get_current_user\<close> loads the user by \<open>select(User)\<close> alone.
  Reading the attribute in a handler asks for a blocking load, which the \<open>AsyncSession\<close> of
  \<open>db.py\<close> refuses: the access raises \<open>MissingGreenlet\<close>, whatever the tables hold.
\<close>

definition user_favorites :: "'h store \<Rightarrow> 'h user \<Rightarrow> error + recipe list" where
  "user_favorites db current_user = Inl MissingGreenlet"

definition add_favorite :: "int \<Rightarrow> 'h user \<Rightarrow> 'h store \<Rightarrow> (error + string) \<times> 'h store" where
  "add_favorite recipe_id current_user db =
     (case db_get_recipe db recipe_id of
        None \<Rightarrow> (Inl (HTTPException 404 ''Recipe not found''), db)
      | Some recipe \<Rightarrow>
         (case user_favorites db current_user of
            Inl e \<Rightarrow> (Inl e, db)
          | Inr favs \<Rightarrow>
             (if recipe \<notin> set favs
              then (Inr ''Recipe added to favorites'',
                    db\<lparr>favorites := favorites db @ [(uid current_user, rid recipe)]\<rparr>)
              else (Inr ''Recipe added to favorites'', db))))"

definition remove_favorite :: "int \<Rightarrow> 'h user \<Rightarrow> 'h store \<Rightarrow> (error + unit) \<times> 'h store" where
  "remove_favorite recipe_id current_user db =
     (case db_get_recipe db recipe_id of
        None \<Rightarrow> (Inl (HTTPException 404 ''Recipe not found''), db)
      | Some recipe \<Rightarrow>
         (case user_favorites db current_user of
            Inl e \<Rightarrow> (Inl e, db)
          | Inr favs \<Rightarrow>
             (if recipe \<in> set favs
              then (Inr (), db\<lparr>favorites := [f \<leftarrow> favorites db. f \<noteq> (uid current_user, rid recipe)]\<rparr>)
              else (Inr (), db))))"

text \<open>
  \<open>list_favorites\<close>: \<open>db.refresh(current_user)\<close> reloads the columns of the user and leaves
  the relationship unloaded.
\<close>

definition list_favorites :: "'h user \<Rightarrow> 'h store \<Rightarrow> error + recipe_list_response" where
  "list_favorites current_user db =
     (case user_favorites db current_user of
        Inl e \<Rightarrow> Inl e
      | Inr favs \<Rightarrow>
         (let recipe_objs = map (\<lambda>r. to_response r True) favs
          in Inr \<lparr>recipes_page = recipe_objs, total = int (length recipe_objs)\<rparr>))"

subsection \<open>The read endpoints with their dependency\<close>

text \<open>
  \<open>browse_recipes\<close> and \<open>get_recipe\<close> declare
  \<open>current_user: Optional[User] = Depends(get_current_user)\<close>: the dependency runs first, and
  an exception it raises is the response of the endpoint.
\<close>

definition browse_recipes_endpoint :: "('h, 't) libs \<Rightarrow> 'h store \<Rightarrow> 't option \<Rightarrow> int \<Rightarrow> string option \<Rightarrow> int \<Rightarrow> int \<Rightarrow> error + recipe_list_response" where
  "browse_recipes_endpoint L db bearer now q skip limit =
     (case get_current_user L db bearer now of
        Inl e \<Rightarrow> Inl e
      | Inr current_user \<Rightarrow> browse_recipes db q skip limit (Some current_user))"

definition get_recipe_endpoint :: "('h, 't) libs \<Rightarrow> 'h store \<Rightarrow> 't option \<Rightarrow> int \<Rightarrow> int \<Rightarrow> error + recipe_response" where
  "get_recipe_endpoint L db bearer now recipe_id =
     (case get_current_user L db bearer now of
        Inl e \<Rightarrow> Inl e
      | Inr current_user \<Rightarrow> get_recipe db recipe_id (Some current_user))"

subsection \<open>The requests that write to the store\<close>

text \<open>
  \<open>main.py\<close> mounts the two routers. The handlers that commit to the store, each with
  the \<open>current_user\<close> it runs for; \<open>login\<close>, \<open>get_me\<close>, \<open>browse_recipes\<close>, \<open>get_recipe\<close> and
  \<open>list_favorites\<close> only read.
\<close>

datatype 'h request =
    Register string user_create
  | CreateRecipe recipe_base "'h user"
  | UpdateRecipe int recipe_update "'h user"
  | DeleteRecipe int "'h user"
  | AddFavorite int "'h user"
  | RemoveFavorite int "'h user"

fun store_after :: "('h, 't) libs \<Rightarrow> 'h request \<Rightarrow> 'h store \<Rightarrow> 'h store" where
  "store_after L (Register salt user) db = snd (register L salt user db)"
| "store_after L (CreateRecipe recipe current_user) db = snd (create_recipe recipe current_user db)"
| "store_after L (UpdateRecipe recipe_id recipe_update current_user) db =
     snd (update_recipe recipe_id recipe_update current_user db)"
| "store_after L (DeleteRecipe recipe_id current_user) db = snd (delete_recipe recipe_id current_user db)"
| "store_after L (AddFavorite recipe_id current_user) db = snd (add_favorite recipe_id current_user db)"
| "store_after L (RemoveFavorite recipe_id current_user) db = snd (remove_favorite recipe_id current_user db)"

section \<open>Constraints of the store\<close>

text \<open>
  The constraints that \<open>db_models.py\<close> declares on the tables: \<open>email\<close> is unique, the
  \<open>id\<close> columns are primary keys filled from their sequences, and the two columns of
  \<open>favorites_table\<close> form its primary key and are foreign keys.
\<close>

definition unique_emails :: "'h store \<Rightarrow> bool" where
  "unique_emails db = distinct (map user_email (users db))"

definition user_ids_issued :: "'h store \<Rightarrow> bool" where
  "user_ids_issued db = list_all (\<lambda>u. uid u < users_id_seq db) (users db)"

definition unique_recipe_ids :: "'h store \<Rightarrow> bool" where
  "unique_recipe_ids db = distinct (map rid (recipes db))"

definition recipe_ids_issued :: "'h store \<Rightarrow> bool" where
  "recipe_ids_issued db = list_all (\<lambda>r. rid r < recipes_id_seq db) (recipes db)"

definition unique_favorites :: "'h store \<Rightarrow> bool" where
  "unique_favorites db = distinct (favorites db)"

definition favorites_reference_recipes :: "'h store \<Rightarrow> bool" where
  "favorites_reference_recipes db = list_all (\<lambda>f. snd f \<in> rid ` set (recipes db)) (favorites db)"

section \<open>Claims validation of the token library\<close>

text \<open>
  \<open>jose.jwt.decode\<close> validates the registered claims of the payload: a subject that is
  not a string is refused with \<open>JWTClaimsError\<close>, which is a \<open>JWTError\<close>. The subject of
  \<open>claims\<close> is the integer that \<open>login\<close> passes to \<open>create_access_token\<close>, so the library
  refuses every token that it made of claims with a subject.
\<close>

definition jwt_refuses_integer_subject :: "('h, 't) libs \<Rightarrow> bool" where
  "jwt_refuses_integer_subject L =
     (\<forall>c now. sub c \<noteq> None \<longrightarrow> jwt_decode L (jwt_encode L c) now = None)"

section \<open>The search filter in the words of the specification\<close>

text \<open>
  The filter as the specification words it: the title or the description contains the
  query without regard to case, or the query is one of the ingredients.
\<close>

fun starts_with :: "string \<Rightarrow> string \<Rightarrow> bool" where
  "starts_with s [] = True"
| "starts_with [] (c # q) = False"
| "starts_with (x # s) (c # q) = (x = c \<and> starts_with s q)"

fun contains :: "string \<Rightarrow> string \<Rightarrow> bool" where
  "contains [] q = (q = [])"
| "contains (x # s) q = (starts_with (x # s) q \<or> contains s q)"

definition spec_search_clause :: "string \<Rightarrow> recipe \<Rightarrow> bool" where
  "spec_search_clause q r =
     (contains (lower (title r)) (lower q)
      \<or> (case description r of None \<Rightarrow> False | Some d \<Rightarrow> contains (lower d) (lower q))
      \<or> q \<in> set (ingredients r))"

section \<open>Well-formed stores and plain queries\<close>

text \<open>All constraints of the store together.\<close>

definition store_ok :: "'h store \<Rightarrow> bool" where
  "store_ok db =
     (unique_emails db \<and> user_ids_issued db \<and> unique_recipe_ids db \<and> recipe_ids_issued db
      \<and> unique_favorites db \<and> favorites_reference_recipes db)"

text \<open>A query that holds none of the pattern characters of \<open>ILIKE\<close>.\<close>

definition plain_query :: "string \<Rightarrow> bool" where
  "plain_query q = list_all (\<lambda>c. c \<noteq> CHR ''%'' \<and> c \<noteq> CHR ''_'' \<and> c \<noteq> CHR 0x5C) q"

section \<open>Example data\<close>

text \<open>
  An instance of the libraries: a hash is the pair of salt and password, a token is its
  claims, and a token decodes until its expiry unless it has an integer subject.
\<close>

definition model_libs :: "(string \<times> string, claims) libs" where
  "model_libs =
     \<lparr>pwd_hash = (\<lambda>salt pw. (salt, pw)),
      pwd_verify = (\<lambda>pw h. snd h = pw),
      jwt_encode = (\<lambda>c. c),
      jwt_decode = (\<lambda>t now. if now \<le> exp t \<and> sub t = None then Some t else None)\<rparr>"

definition empty_store :: "'h store" where
  "empty_store = \<lparr>users = [], recipes = [], favorites = [], users_id_seq = 1, recipes_id_seq = 1\<rparr>"

definition alice :: "(string \<times> string) user" where
  "alice = \<lparr>uid = 1, user_email = ''alice@example.com'',
            hashed_password = (''s1'', ''secret1''), is_active = True\<rparr>"

definition bob :: "(string \<times> string) user" where
  "bob = \<lparr>uid = 2, user_email = ''bob@example.com'',
          hashed_password = (''s2'', ''hunter22''), is_active = True\<rparr>"

definition omelet :: recipe where
  "omelet = \<lparr>title = ''Omelet'', description = None, ingredients = [''egg'', ''salt''],
             instructions = [''whisk'', ''fry''], rid = 1, owner_id = 1\<rparr>"

definition kitchen :: "(string \<times> string) store" where
  "kitchen = \<lparr>users = [alice, bob], recipes = [omelet], favorites = [],
              users_id_seq = 3, recipes_id_seq = 2\<rparr>"

text \<open>The same store after bob has marked the omelet as a favorite.\<close>

definition kitchen_fav :: "(string \<times> string) store" where
  "kitchen_fav = kitchen\<lparr>favorites := [(2, 1)]\<rparr>"

text \<open>A recipe whose title holds a backslash, and a store that holds only this recipe.\<close>

definition path_note :: recipe where
  "path_note = omelet\<lparr>title := [CHR ''a'', CHR 0x5C, CHR ''b'']\<rparr>"

definition note_store :: "(string \<times> string) store" where
  "note_store = kitchen\<lparr>recipes := [path_note]\<rparr>"

definition carol :: user_create where
  "carol = \<lparr>email = ''carol@example.com'', password = ''letmein1''\<rparr>"

definition cheese_update :: recipe_update where
  "cheese_update = \<lparr>upd_title = ''Cheese omelet'', upd_description = None,
                     upd_ingredients = [''egg'', ''cheese''], upd_instructions = [''whisk'', ''fry'']\<rparr>"

section \<open>Auxiliary facts\<close>

lemma filter_distinct_key:
  "distinct (map f xs) \<Longrightarrow> x \<in> set xs \<Longrightarrow> [y \<leftarrow> xs. f y = f x] = [x]"
proof (induction xs)
  case Nil
  then show ?case by simp
next
  case (Cons a xs)
  show ?case
  proof (cases "a = x")
    case True
    with Cons.prems have "\<forall>y \<in> set xs. f y \<noteq> f x" by (auto simp: image_iff)
    then have "[y \<leftarrow> xs. f y = f x] = []" by (simp add: filter_empty_conv)
    with True show ?thesis by simp
  next
    case False
    with Cons.prems have "x \<in> set xs" "f a \<noteq> f x" "distinct (map f xs)"
      by (auto simp: image_iff)
    with Cons.IH show ?thesis by simp
  qed
qed

lemma filter_no_key: "k \<notin> f ` set xs \<Longrightarrow> [y \<leftarrow> xs. f y = k] = []"
  by (auto simp: filter_empty_conv)

lemma db_get_recipe_SomeD:
  "db_get_recipe db recipe_id = Some r \<Longrightarrow> r \<in> set (recipes db) \<and> rid r = recipe_id"
  by (auto simp: db_get_recipe_def find_Some_iff in_set_conv_nth)

lemma rid_setattr [simp]: "rid (setattr r k v) = rid r"
  by (cases v) simp_all

lemma owner_id_setattr [simp]: "owner_id (setattr r k v) = owner_id r"
  by (cases v) simp_all

text \<open>The loop of \<open>update_recipe\<close> over the supplied fields, in closed form.\<close>

lemma apply_update:
  "fold (\<lambda>(k, v) r. setattr r k v) (dict_exclude_unset upd) r =
     r\<lparr>title := upd_title upd,
       description := (case upd_description upd of None \<Rightarrow> description r | Some d \<Rightarrow> d),
       ingredients := upd_ingredients upd,
       instructions := upd_instructions upd\<rparr>"
  by (simp add: dict_exclude_unset_def split: option.splits)

lemma find_map_replace:
  "find (\<lambda>r. rid r = k) xs = Some r \<Longrightarrow> rid r' = k \<Longrightarrow>
   find (\<lambda>r. rid r = k) (map (\<lambda>x. if rid x = k then r' else x) xs) = Some r'"
  by (induction xs) (auto split: if_splits)

lemma register_fresh:
  assumes "email user \<notin> user_email ` set (users db)"
  shows "register L salt user db =
     (Inr \<lparr>resp_id = users_id_seq db, resp_email = email user, resp_is_active = True\<rparr>,
      db\<lparr>users := users db @ [\<lparr>uid = users_id_seq db, user_email = email user,
                                 hashed_password = hash_password L salt (password user),
                                 is_active = True\<rparr>],
         users_id_seq := users_id_seq db + 1\<rparr>)"
proof -
  from assms have "[u \<leftarrow> users db. user_email u = email user] = []" by (rule filter_no_key)
  then show ?thesis by (simp add: register_def Let_def)
qed

lemma model_libs_strict: "jwt_refuses_integer_subject model_libs"
  by (simp add: jwt_refuses_integer_subject_def model_libs_def)

text \<open>A token that \<open>login\<close> returns was made of claims whose subject is the id of a user.\<close>

lemma login_token:
  "login L now user db = Inr token \<Longrightarrow>
   \<exists>i. token = jwt_encode L \<lparr>sub = Some i, exp = now + ACCESS_TOKEN_EXPIRE_MINUTES * 60\<rparr>"
  by (auto simp: login_def create_access_token_def split: sum.splits option.splits if_splits)

lemma kitchen_constraints:
  "unique_emails kitchen" "user_ids_issued kitchen" "unique_recipe_ids kitchen"
  "recipe_ids_issued kitchen" "unique_favorites kitchen" "favorites_reference_recipes kitchen"
  by (simp_all add: unique_emails_def user_ids_issued_def unique_recipe_ids_def recipe_ids_issued_def
        unique_favorites_def favorites_reference_recipes_def kitchen_def alice_def bob_def omelet_def)

lemma kitchen_omelet: "db_get_recipe kitchen 1 = Some omelet"
  by (simp add: db_get_recipe_def kitchen_def omelet_def)

text \<open>The pattern that \<open>browse_recipes\<close> builds is never refused.\<close>

lemma like_parse_pattern: "like_parse (lower (''%'' @ q @ ''%'')) \<noteq> None"
proof -
  have low: "lower (CHR ''%'' # q @ ''%'') = CHR ''%'' # lower q @ ''%''"
    by (simp add: lower_def lower_char_def)
  have "like_parse (s @ ''%'') \<noteq> None" for s
    by (induction s rule: like_parse.induct) (auto simp: like_tok_of_def)
  from this [of "CHR ''%'' # lower q"] show ?thesis by (simp add: low)
qed

section \<open>Identity on the read endpoints\<close>

text \<open>
  Claim C1 says that \<open>browse\<close> and \<open>get\<close> resolve the identity optionally: a request
  whose bearer token is missing, invalid or expired is still served, as an anonymous call.
  The endpoints depend on \<open>get_current_user\<close>, which raises: without a token both answer
  401 \<open>Not authenticated\<close>, and with a token that does not decode both answer 401
  \<open>Could not validate credentials\<close>, whatever the store and the other parameters.
\<close>

theorem read_endpoints_require_identity:
  "browse_recipes_endpoint L db None now q skip limit = Inl (HTTPException 401 ''Not authenticated'')
   \<and> get_recipe_endpoint L db None now recipe_id = Inl (HTTPException 401 ''Not authenticated'')
   \<and> (jwt_decode L token now = None \<longrightarrow>
        browse_recipes_endpoint L db (Some token) now q skip limit = Inl credentials_exception
        \<and> get_recipe_endpoint L db (Some token) now recipe_id = Inl credentials_exception)"
  by (simp add: browse_recipes_endpoint_def get_recipe_endpoint_def get_current_user_def
        oauth2_scheme_def)

theorem read_endpoints_require_identity_witness:
  "browse_recipes_endpoint model_libs kitchen None 100 (Some ''egg'') 0 20
     = Inl (HTTPException 401 ''Not authenticated'')
   \<and> get_recipe_endpoint model_libs kitchen None 100 1 = Inl (HTTPException 401 ''Not authenticated'')
   \<and> browse_recipes_endpoint model_libs kitchen (Some \<lparr>sub = Some 1, exp = 50\<rparr>) 100 (Some ''egg'') 0 20
     = Inl (HTTPException 401 ''Could not validate credentials'')
   \<and> get_recipe_endpoint model_libs kitchen (Some \<lparr>sub = Some 1, exp = 50\<rparr>) 100 1
     = Inl (HTTPException 401 ''Could not validate credentials'')"
proof -
  have expired: "jwt_decode model_libs \<lparr>sub = Some 1, exp = 50\<rparr> 100 = None"
    by (simp add: model_libs_def)
  from expired
    read_endpoints_require_identity [of model_libs kitchen 100 "Some ''egg''" 0 20 1
      "\<lparr>sub = Some 1, exp = 50\<rparr>"]
  show ?thesis by (simp add: credentials_exception_def)
qed

section \<open>Registration and login\<close>

text \<open>
  Claim C2 says that after \<open>register\<close>, \<open>login\<close> with the same email and password returns
  a token whose verification resolves to the registered user. \<open>login\<close> encodes the integer
  id of the user as the subject, which the token library refuses when it decodes: for
  every token that \<open>login\<close> returns, at every time and on every store, \<open>get_current_user\<close>
  raises 401 \<open>Could not validate credentials\<close>, and so does \<open>get_me\<close>.
\<close>

theorem login_token_refused:
  assumes "jwt_refuses_integer_subject L" and "login L t_login user db = Inr token"
  shows "get_current_user L db' (Some token) t_verify = Inl credentials_exception
       \<and> get_me L db' (Some token) t_verify = Inl credentials_exception"
proof -
  from assms(2) obtain i where
    token: "token = jwt_encode L \<lparr>sub = Some i, exp = t_login + ACCESS_TOKEN_EXPIRE_MINUTES * 60\<rparr>"
    by (auto dest: login_token)
  from assms(1) have "jwt_decode L token t_verify = None"
    unfolding token jwt_refuses_integer_subject_def by simp
  then have "get_current_user L db' (Some token) t_verify = Inl credentials_exception"
    by (simp add: get_current_user_def oauth2_scheme_def)
  then show ?thesis by (simp add: get_me_def)
qed

theorem login_token_refused_witness:
  "fst (register model_libs ''s3'' carol kitchen)
     = Inr \<lparr>resp_id = 3, resp_email = ''carol@example.com'', resp_is_active = True\<rparr>
   \<and> login model_libs 1000 carol (snd (register model_libs ''s3'' carol kitchen))
       = Inr \<lparr>sub = Some 3, exp = 605800\<rparr>
   \<and> get_current_user model_libs (snd (register model_libs ''s3'' carol kitchen))
        (Some \<lparr>sub = Some 3, exp = 605800\<rparr>) 2000
       = Inl (HTTPException 401 ''Could not validate credentials'')
   \<and> get_me model_libs (snd (register model_libs ''s3'' carol kitchen))
        (Some \<lparr>sub = Some 3, exp = 605800\<rparr>) 2000
       = Inl (HTTPException 401 ''Could not validate credentials'')"
proof -
  have fresh: "email carol \<notin> user_email ` set (users kitchen)"
    by (simp add: carol_def kitchen_def alice_def bob_def)
  have reg: "register model_libs ''s3'' carol kitchen =
      (Inr \<lparr>resp_id = 3, resp_email = ''carol@example.com'', resp_is_active = True\<rparr>,
       kitchen\<lparr>users := users kitchen @ [\<lparr>uid = 3, user_email = ''carol@example.com'',
                     hashed_password = (''s3'', ''letmein1''), is_active = True\<rparr>],
               users_id_seq := 4\<rparr>)"
    by (simp add: register_fresh [OF fresh])
       (simp add: carol_def kitchen_def hash_password_def model_libs_def)
  have log: "login model_libs 1000 carol (snd (register model_libs ''s3'' carol kitchen))
      = Inr \<lparr>sub = Some 3, exp = 605800\<rparr>"
    by (simp add: reg)
       (simp add: login_def carol_def kitchen_def alice_def bob_def verify_password_def
          create_access_token_def ACCESS_TOKEN_EXPIRE_MINUTES_def model_libs_def)
  from login_token_refused [OF model_libs_strict log] reg log
  show ?thesis by (simp add: credentials_exception_def)
qed

text \<open>
  Claim C3: a login that fails, because no user has the email or because the password does
  not verify against the stored hash, returns one and the same error, 401
  \<open>Incorrect email or password\<close>; on a store with unique emails \<open>login\<close> returns no other
  error.
\<close>

theorem login_failures_identical:
  assumes "unique_emails db"
  shows "(email user \<notin> user_email ` set (users db)
            \<or> (\<exists>u \<in> set (users db). user_email u = email user
                  \<and> \<not> verify_password L (password user) (hashed_password u))
          \<longrightarrow> login L now user db = Inl (HTTPException 401 ''Incorrect email or password''))
       \<and> (\<forall>e. login L now user db = Inl e \<longrightarrow> e = HTTPException 401 ''Incorrect email or password'')"
proof (intro conjI impI allI)
  assume "email user \<notin> user_email ` set (users db)
            \<or> (\<exists>u \<in> set (users db). user_email u = email user
                  \<and> \<not> verify_password L (password user) (hashed_password u))"
  then show "login L now user db = Inl (HTTPException 401 ''Incorrect email or password'')"
  proof
    assume "email user \<notin> user_email ` set (users db)"
    then have "[u \<leftarrow> users db. user_email u = email user] = []" by (rule filter_no_key)
    then show ?thesis by (simp add: login_def)
  next
    assume "\<exists>u \<in> set (users db). user_email u = email user
              \<and> \<not> verify_password L (password user) (hashed_password u)"
    then obtain u where u: "u \<in> set (users db)" "user_email u = email user"
      "\<not> verify_password L (password user) (hashed_password u)" by blast
    from assms u(1) have "[y \<leftarrow> users db. user_email y = user_email u] = [u]"
      unfolding unique_emails_def by (rule filter_distinct_key)
    with u show ?thesis by (simp add: login_def)
  qed
next
  fix e
  assume failed: "login L now user db = Inl e"
  show "e = HTTPException 401 ''Incorrect email or password''"
  proof (cases "email user \<in> user_email ` set (users db)")
    case False
    then have "[u \<leftarrow> users db. user_email u = email user] = []" by (rule filter_no_key)
    with failed show ?thesis by (simp add: login_def)
  next
    case True
    then obtain u where u: "u \<in> set (users db)" "user_email u = email user" by auto
    from assms u(1) have "[y \<leftarrow> users db. user_email y = user_email u] = [u]"
      unfolding unique_emails_def by (rule filter_distinct_key)
    with u failed show ?thesis by (simp add: login_def split: if_splits)
  qed
qed

theorem login_failures_identical_witness:
  "login model_libs 1000 \<lparr>email = ''nobody@example.com'', password = ''secret1''\<rparr> kitchen
     = Inl (HTTPException 401 ''Incorrect email or password'')
   \<and> login model_libs 1000 \<lparr>email = ''alice@example.com'', password = ''wrong''\<rparr> kitchen
     = Inl (HTTPException 401 ''Incorrect email or password'')"
proof -
  have unknown: "email \<lparr>email = ''nobody@example.com'', password = ''secret1''\<rparr>
                   \<notin> user_email ` set (users kitchen)"
    by (simp add: kitchen_def alice_def bob_def)
  have wrong: "\<exists>u \<in> set (users kitchen).
      user_email u = email \<lparr>email = ''alice@example.com'', password = ''wrong''\<rparr>
      \<and> \<not> verify_password model_libs (password \<lparr>email = ''alice@example.com'', password = ''wrong''\<rparr>)
            (hashed_password u)"
    by (simp add: kitchen_def alice_def bob_def verify_password_def model_libs_def)
  from unknown wrong
    login_failures_identical [OF kitchen_constraints(1), of _ model_libs 1000]
  show ?thesis by blast
qed

text \<open>
  Claim C4: \<open>register\<close> with an email that a stored user already has fails with 400
  \<open>Email already registered\<close> and leaves the store as it was.
\<close>

theorem register_duplicate_email:
  assumes "unique_emails db" and "email user \<in> user_email ` set (users db)"
  shows "register L salt user db = (Inl (HTTPException 400 ''Email already registered''), db)"
proof -
  from assms(2) obtain u where u: "u \<in> set (users db)" "user_email u = email user" by auto
  from assms(1) u(1) have "[y \<leftarrow> users db. user_email y = user_email u] = [u]"
    unfolding unique_emails_def by (rule filter_distinct_key)
  with u show ?thesis by (simp add: register_def)
qed

theorem register_duplicate_email_witness:
  "register model_libs ''s9'' \<lparr>email = ''alice@example.com'', password = ''another1''\<rparr> kitchen
     = (Inl (HTTPException 400 ''Email already registered''), kitchen)"
proof -
  have present: "email \<lparr>email = ''alice@example.com'', password = ''another1''\<rparr>
                   \<in> user_email ` set (users kitchen)"
    by (simp add: kitchen_def alice_def bob_def)
  show ?thesis by (rule register_duplicate_email [OF kitchen_constraints(1) present])
qed

lemma kitchen_fav_constraints:
  "unique_recipe_ids kitchen_fav" "unique_favorites kitchen_fav"
  "favorites_reference_recipes kitchen_fav"
  by (simp_all add: unique_recipe_ids_def unique_favorites_def favorites_reference_recipes_def
        kitchen_fav_def kitchen_def omelet_def)

lemma kitchen_fav_omelet: "db_get_recipe kitchen_fav 1 = Some omelet"
  by (simp add: db_get_recipe_def kitchen_fav_def kitchen_def omelet_def)

section \<open>Favorites\<close>

text \<open>
  Claim C5 says that \<open>add_favorite\<close> is idempotent: two calls for the same user and stored
  recipe both succeed and leave exactly one entry. The handler reads
  \<open>current_user.favorites\<close> before it writes: for every user and every stored recipe the
  first call raises \<open>MissingGreenlet\<close> and stores nothing, and so does the second, and the
  association table has as many rows for the pair as before.
\<close>

theorem add_favorite_raises:
  assumes "db_get_recipe db recipe_id = Some r"
  shows "add_favorite recipe_id u db = (Inl MissingGreenlet, db)
       \<and> add_favorite recipe_id u (snd (add_favorite recipe_id u db)) = (Inl MissingGreenlet, db)
       \<and> count_list (favorites (snd (add_favorite recipe_id u db))) (uid u, recipe_id)
           = count_list (favorites db) (uid u, recipe_id)"
proof -
  have "add_favorite recipe_id u db = (Inl MissingGreenlet, db)"
    using assms by (simp add: add_favorite_def user_favorites_def)
  then show ?thesis by simp
qed

theorem add_favorite_raises_witness:
  "add_favorite 1 bob kitchen = (Inl MissingGreenlet, kitchen)
   \<and> add_favorite 1 bob (snd (add_favorite 1 bob kitchen)) = (Inl MissingGreenlet, kitchen)
   \<and> count_list (favorites (snd (add_favorite 1 bob kitchen))) (uid bob, 1) = 0"
proof -
  have none: "count_list (favorites kitchen) (uid bob, 1) = 0"
    by (simp add: kitchen_def)
  from add_favorite_raises [OF kitchen_omelet, of bob] none
  show ?thesis by simp
qed

text \<open>
  Claim C6 says that \<open>remove_favorite\<close> on a stored recipe that is not a favorite of the
  user succeeds and changes nothing. The handler reads \<open>current_user.favorites\<close>: for every
  user and every stored recipe the call raises \<open>MissingGreenlet\<close>; the store is unchanged.
\<close>

theorem remove_favorite_raises:
  assumes "db_get_recipe db recipe_id = Some r"
  shows "remove_favorite recipe_id u db = (Inl MissingGreenlet, db)"
  using assms by (simp add: remove_favorite_def user_favorites_def)

theorem remove_favorite_raises_witness:
  "(uid alice, 1) \<notin> set (favorites kitchen_fav)
   \<and> remove_favorite 1 alice kitchen_fav = (Inl MissingGreenlet, kitchen_fav)"
proof -
  have "(uid alice, 1) \<notin> set (favorites kitchen_fav)"
    by (simp add: kitchen_fav_def alice_def)
  with remove_favorite_raises [OF kitchen_fav_omelet, of alice]
  show ?thesis by simp
qed

section \<open>Ownership\<close>

text \<open>
  Claim C7: for every stored recipe owned by a user A and every user B other than A, both
  \<open>update_recipe\<close> and \<open>delete_recipe\<close> called by B fail with 403 \<open>Forbidden\<close> and return the
  store unchanged, so the recipe keeps its title, description, ingredients, instructions
  and owner.
\<close>

theorem non_owner_forbidden:
  assumes "db_get_recipe db recipe_id = Some r"
    and "owner_id r = uid a" and "uid b \<noteq> uid a"
  shows "update_recipe recipe_id upd b db = (Inl (HTTPException 403 ''Forbidden''), db)
       \<and> delete_recipe recipe_id b db = (Inl (HTTPException 403 ''Forbidden''), db)"
  using assms by (simp add: update_recipe_def delete_recipe_def)

theorem non_owner_forbidden_witness:
  "update_recipe 1 cheese_update bob kitchen_fav = (Inl (HTTPException 403 ''Forbidden''), kitchen_fav)
   \<and> delete_recipe 1 bob kitchen_fav = (Inl (HTTPException 403 ''Forbidden''), kitchen_fav)"
proof -
  have owner: "owner_id omelet = uid alice" by (simp add: omelet_def alice_def)
  have other: "uid bob \<noteq> uid alice" by (simp add: alice_def bob_def)
  show ?thesis by (rule non_owner_forbidden [OF kitchen_fav_omelet owner other])
qed

text \<open>
  Claim C9: an update by the owner of a stored recipe applies exactly the fields that the
  request supplies and leaves the others unchanged. The schema makes the request supply
  \<open>title\<close>, \<open>ingredients\<close> and \<open>instructions\<close>; \<open>description\<close> is replaced when supplied
  (also by null) and kept when not. The id and the owner stay, and so does every other
  row of the store.
\<close>

theorem update_applies_supplied_fields:
  assumes "db_get_recipe db recipe_id = Some r" and "owner_id r = uid current_user"
  shows "\<exists>r'. update_recipe recipe_id upd current_user db =
                 (Inr (to_response r' False),
                  db\<lparr>recipes := map (\<lambda>x. if rid x = recipe_id then r' else x) (recipes db)\<rparr>)
             \<and> db_get_recipe (snd (update_recipe recipe_id upd current_user db)) recipe_id = Some r'
             \<and> title r' = upd_title upd
             \<and> ingredients r' = upd_ingredients upd
             \<and> instructions r' = upd_instructions upd
             \<and> description r' = (case upd_description upd of None \<Rightarrow> description r | Some d \<Rightarrow> d)
             \<and> rid r' = rid r \<and> owner_id r' = owner_id r"
proof -
  let ?r' = "r\<lparr>title := upd_title upd,
       description := (case upd_description upd of None \<Rightarrow> description r | Some d \<Rightarrow> d),
       ingredients := upd_ingredients upd,
       instructions := upd_instructions upd\<rparr>"
  let ?db' = "db\<lparr>recipes := map (\<lambda>x. if rid x = recipe_id then ?r' else x) (recipes db)\<rparr>"
  from assms(1) have k: "rid r = recipe_id" by (auto dest: db_get_recipe_SomeD)
  have upd: "update_recipe recipe_id upd current_user db = (Inr (to_response ?r' False), ?db')"
    using assms by (simp add: update_recipe_def apply_update Let_def)
  have "find (\<lambda>r. rid r = recipe_id) (map (\<lambda>x. if rid x = recipe_id then ?r' else x) (recipes db))
          = Some ?r'"
    using assms(1) k unfolding db_get_recipe_def by (intro find_map_replace) simp_all
  then have get: "db_get_recipe ?db' recipe_id = Some ?r'" by (simp add: db_get_recipe_def)
  show ?thesis
    apply (rule exI [of _ ?r'])
    using upd get by simp
qed

theorem update_applies_supplied_fields_witness:
  "\<exists>r'. update_recipe 1 cheese_update alice kitchen_fav =
           (Inr (to_response r' False),
            kitchen_fav\<lparr>recipes := map (\<lambda>x. if rid x = 1 then r' else x) (recipes kitchen_fav)\<rparr>)
       \<and> db_get_recipe (snd (update_recipe 1 cheese_update alice kitchen_fav)) 1 = Some r'
       \<and> title r' = upd_title cheese_update
       \<and> ingredients r' = upd_ingredients cheese_update
       \<and> instructions r' = upd_instructions cheese_update
       \<and> description r' =
           (case upd_description cheese_update of None \<Rightarrow> description omelet | Some d \<Rightarrow> d)
       \<and> rid r' = rid omelet \<and> owner_id r' = owner_id omelet"
proof -
  have owner: "owner_id omelet = uid alice" by (simp add: omelet_def alice_def)
  show ?thesis by (rule update_applies_supplied_fields [OF kitchen_fav_omelet owner])
qed

section \<open>Referential integrity of the favorites\<close>

lemma inv_register:
  "favorites_reference_recipes db \<Longrightarrow> favorites_reference_recipes (snd (register L salt user db))"
  by (auto simp: register_def favorites_reference_recipes_def Let_def split: sum.splits option.splits)

lemma inv_create:
  "favorites_reference_recipes db \<Longrightarrow> favorites_reference_recipes (snd (create_recipe recipe u db))"
  by (auto simp: create_recipe_def favorites_reference_recipes_def Let_def list_all_iff)

lemma inv_update:
  assumes "favorites_reference_recipes db"
  shows "favorites_reference_recipes (snd (update_recipe k upd u db))"
proof -
  have "rid ` set (map (\<lambda>x. if rid x = k then r' else x) xs) = rid ` set xs"
    if "rid r' = k" for r' and xs :: "recipe list"
    using that by (induction xs) auto
  then show ?thesis using assms
    by (auto simp: update_recipe_def favorites_reference_recipes_def Let_def apply_update
          split: option.splits dest!: db_get_recipe_SomeD)
qed

lemma inv_delete:
  "favorites_reference_recipes db \<Longrightarrow> favorites_reference_recipes (snd (delete_recipe k u db))"
  by (auto simp: delete_recipe_def favorites_reference_recipes_def list_all_iff split: option.splits)

lemma inv_add:
  "favorites_reference_recipes db \<Longrightarrow> favorites_reference_recipes (snd (add_favorite k u db))"
  by (auto simp: add_favorite_def user_favorites_def favorites_reference_recipes_def
        split: option.splits)

lemma inv_remove:
  "favorites_reference_recipes db \<Longrightarrow> favorites_reference_recipes (snd (remove_favorite k u db))"
  by (auto simp: remove_favorite_def user_favorites_def favorites_reference_recipes_def
        split: option.splits)

text \<open>
  Claim C10: deleting a recipe removes the rows of the association table that refer to it:
  after a successful \<open>delete_recipe\<close> the recipe is gone and no favorite refers to its id.
  That every favorite refers to a stored recipe is kept by every request that writes to
  the store.
\<close>

theorem delete_removes_favorites:
  "(favorites_reference_recipes db \<longrightarrow> favorites_reference_recipes (store_after L req db))
   \<and> (delete_recipe recipe_id u db = (Inr (), db') \<longrightarrow>
        recipe_id \<notin> snd ` set (favorites db') \<and> db_get_recipe db' recipe_id = None)"
proof
  show "favorites_reference_recipes db \<longrightarrow> favorites_reference_recipes (store_after L req db)"
    by (cases req) (simp_all add: inv_register inv_create inv_update inv_delete inv_add inv_remove)
  show "delete_recipe recipe_id u db = (Inr (), db') \<longrightarrow>
        recipe_id \<notin> snd ` set (favorites db') \<and> db_get_recipe db' recipe_id = None"
    by (auto simp: delete_recipe_def db_get_recipe_def find_None_iff split: option.splits if_splits
             dest!: db_get_recipe_SomeD[unfolded db_get_recipe_def])
qed

theorem delete_removes_favorites_witness:
  "favorites_reference_recipes (store_after model_libs (DeleteRecipe 1 alice) kitchen_fav)
   \<and> delete_recipe 1 alice kitchen_fav = (Inr (), kitchen\<lparr>recipes := []\<rparr>)
   \<and> 1 \<notin> snd ` set (favorites (kitchen\<lparr>recipes := []\<rparr>))
   \<and> db_get_recipe (kitchen\<lparr>recipes := []\<rparr>) 1 = None"
proof -
  have del: "delete_recipe 1 alice kitchen_fav = (Inr (), kitchen\<lparr>recipes := []\<rparr>)"
    by (simp add: delete_recipe_def kitchen_fav_omelet)
       (simp add: kitchen_fav_def kitchen_def omelet_def alice_def)
  from del kitchen_fav_constraints(3)
    delete_removes_favorites [of kitchen_fav model_libs "DeleteRecipe 1 alice" 1 alice
      "kitchen\<lparr>recipes := []\<rparr>"]
  show ?thesis by blast
qed

section \<open>The search filter\<close>

text \<open>
  Claim C8: for a non-empty query, \<open>browse\<close> returns exactly the recipes whose title or
  description contains the query without regard to case, or whose ingredients hold the
  query itself, pagination apart. The query goes into the \<open>ILIKE\<close> pattern as it is, so
  its \<open>%\<close>, \<open>_\<close> and backslash act as pattern characters. The query \<open>%\<close> returns the omelet,
  which has no \<open>%\<close> in its title, no description and no such ingredient; the query made
  of one backslash does not return the recipe whose title holds a backslash.
\<close>

theorem browse_wildcard_not_substring:
  "browse_recipes kitchen (Some ''%'') 0 20 None
     = Inr \<lparr>recipes_page = [to_response omelet False], total = 1\<rparr>
   \<and> \<not> spec_search_clause ''%'' omelet
   \<and> browse_recipes note_store (Some [CHR 0x5C]) 0 20 None = Inr \<lparr>recipes_page = [], total = 0\<rparr>
   \<and> spec_search_clause [CHR 0x5C] path_note"
  by code_simp

section \<open>The constraints are invariants\<close>

text \<open>
  The constraints hold of the empty store and every request that writes to the store keeps
  them, so they hold of every store that requests can produce.
\<close>

lemma scalar_one_or_none_None: "scalar_one_or_none xs = Inr None \<longleftrightarrow> xs = []"
  by (cases xs rule: scalar_one_or_none.cases) simp_all

lemma store_ok_empty: "store_ok empty_store"
  by (simp add: store_ok_def empty_store_def unique_emails_def user_ids_issued_def
        unique_recipe_ids_def recipe_ids_issued_def unique_favorites_def
        favorites_reference_recipes_def)

lemma map_rid_replace:
  "rid r' = k \<Longrightarrow> map rid (map (\<lambda>x. if rid x = k then r' else x) xs) = map rid xs"
  by (induction xs) auto

lemma issued_replace:
  "rid r' = k \<Longrightarrow> list_all (\<lambda>r. rid r < n) xs \<Longrightarrow>
   list_all (\<lambda>r. rid r < n) (map (\<lambda>x. if rid x = k then r' else x) xs)"
  by (induction xs) auto

lemma store_ok_register:
  assumes "store_ok db"
  shows "store_ok (snd (register L salt user db))"
proof (cases "scalar_one_or_none [u \<leftarrow> users db. user_email u = email user]")
  case (Inl e)
  with assms show ?thesis by (simp add: register_def)
next
  case (Inr found)
  show ?thesis
  proof (cases found)
    case (Some u)
    with Inr assms show ?thesis by (simp add: register_def)
  next
    case None
    with Inr have "[u \<leftarrow> users db. user_email u = email user] = []"
      by (simp add: scalar_one_or_none_None)
    then have fresh: "email user \<notin> user_email ` set (users db)"
      by (auto simp: filter_empty_conv)
    from assms have "\<forall>u \<in> set (users db). uid u < users_id_seq db"
      by (simp add: store_ok_def user_ids_issued_def list_all_iff)
    then have "\<forall>u \<in> set (users db). uid u < users_id_seq db + 1" by auto
    with assms fresh Inr None show ?thesis
      by (simp add: register_def Let_def store_ok_def unique_emails_def user_ids_issued_def
            unique_recipe_ids_def recipe_ids_issued_def unique_favorites_def
            favorites_reference_recipes_def list_all_iff)
  qed
qed

lemma store_ok_create:
  assumes "store_ok db"
  shows "store_ok (snd (create_recipe recipe u db))"
proof -
  from assms have below: "\<forall>r \<in> set (recipes db). rid r < recipes_id_seq db"
    by (simp add: store_ok_def recipe_ids_issued_def list_all_iff)
  then have "recipes_id_seq db \<notin> rid ` set (recipes db)" by auto
  moreover from below have "\<forall>r \<in> set (recipes db). rid r < recipes_id_seq db + 1" by auto
  ultimately show ?thesis using assms
    by (auto simp: create_recipe_def Let_def store_ok_def unique_emails_def user_ids_issued_def
          unique_recipe_ids_def recipe_ids_issued_def unique_favorites_def
          favorites_reference_recipes_def list_all_iff)
qed

lemma store_ok_update:
  assumes "store_ok db"
  shows "store_ok (snd (update_recipe k upd u db))"
proof (cases "db_get_recipe db k")
  case None
  with assms show ?thesis by (simp add: update_recipe_def)
next
  case (Some r)
  show ?thesis
  proof (cases "owner_id r = uid u")
    case False
    with Some assms show ?thesis by (simp add: update_recipe_def)
  next
    case True
    let ?r' = "fold (\<lambda>(k, v) r. setattr r k v) (dict_exclude_unset upd) r"
    let ?rs = "map (\<lambda>x. if rid x = k then ?r' else x) (recipes db)"
    from Some have k: "rid r = k" by (auto dest: db_get_recipe_SomeD)
    then have rk: "rid ?r' = k" by (simp add: apply_update)
    then have ids: "map rid ?rs = map rid (recipes db)" by (rule map_rid_replace)
    then have img: "rid ` set ?rs = rid ` set (recipes db)"
      by (metis list.set_map)
    have after: "snd (update_recipe k upd u db) = db\<lparr>recipes := ?rs\<rparr>"
      using Some True by (simp add: update_recipe_def Let_def)
    from assms have "list_all (\<lambda>r. rid r < recipes_id_seq db) (recipes db)"
      by (simp add: store_ok_def recipe_ids_issued_def)
    with rk have issued: "list_all (\<lambda>r. rid r < recipes_id_seq db) ?rs"
      by (rule issued_replace)
    from assms have "distinct (map rid ?rs)"
      by (simp only: ids) (simp add: store_ok_def unique_recipe_ids_def)
    with assms issued img show ?thesis
      unfolding after
      by (simp add: store_ok_def unique_emails_def user_ids_issued_def unique_recipe_ids_def
            recipe_ids_issued_def unique_favorites_def favorites_reference_recipes_def)
  qed
qed

lemma store_ok_delete:
  assumes "store_ok db"
  shows "store_ok (snd (delete_recipe k u db))"
  using assms
  by (auto simp: delete_recipe_def store_ok_def unique_emails_def user_ids_issued_def
        unique_recipe_ids_def recipe_ids_issued_def unique_favorites_def
        favorites_reference_recipes_def list_all_iff distinct_map_filter
        split: option.splits)

lemma store_ok_add:
  assumes "store_ok db"
  shows "store_ok (snd (add_favorite k u db))"
  using assms
  by (auto simp: add_favorite_def store_ok_def unique_emails_def user_ids_issued_def
        unique_recipe_ids_def recipe_ids_issued_def unique_favorites_def
        favorites_reference_recipes_def user_favorites_def
        split: option.splits)

lemma store_ok_remove:
  assumes "store_ok db"
  shows "store_ok (snd (remove_favorite k u db))"
  using assms
  by (auto simp: remove_favorite_def store_ok_def unique_emails_def user_ids_issued_def
        unique_recipe_ids_def recipe_ids_issued_def unique_favorites_def
        favorites_reference_recipes_def user_favorites_def
        split: option.splits)

lemma store_ok_preserved: "store_ok db \<Longrightarrow> store_ok (store_after L req db)"
  by (cases req)
     (simp_all add: store_ok_register store_ok_create store_ok_update store_ok_delete
        store_ok_add store_ok_remove)

lemma store_ok_reachable: "store_ok (fold (store_after L) reqs empty_store)"
proof -
  have "store_ok db \<Longrightarrow> store_ok (fold (store_after L) reqs db)" for db :: "'a store"
    by (induction reqs arbitrary: db) (simp_all add: store_ok_preserved)
  then show ?thesis using store_ok_empty by blast
qed

section \<open>The search filter on plain queries\<close>

text \<open>
  On a query without \<open>%\<close>, \<open>_\<close> and backslash the \<open>where\<close> clause of \<open>browse_recipes\<close> is
  the filter of the specification, and an anonymous \<open>browse\<close> returns a page of exactly
  the recipes that pass it.
\<close>

lemma lower_char_plain:
  "lower_char c = CHR ''%'' \<longleftrightarrow> c = CHR ''%''"
  "lower_char c = CHR ''_'' \<longleftrightarrow> c = CHR ''_''"
  "lower_char c = CHR 0x5C \<longleftrightarrow> c = CHR 0x5C"
proof -
  have up: "of_char (lower_char c) = (of_char c + 32 :: nat)"
    if "(65::nat) \<le> of_char c" "of_char c \<le> (90::nat)"
    using that by (simp add: lower_char_def)
  have same: "lower_char c = c" if "\<not> ((65::nat) \<le> of_char c \<and> of_char c \<le> (90::nat))"
    using that by (auto simp: lower_char_def)
  show "lower_char c = CHR ''%'' \<longleftrightarrow> c = CHR ''%''"
  proof (cases "(65::nat) \<le> of_char c \<and> of_char c \<le> (90::nat)")
    case True
    then have "of_char (lower_char c) \<noteq> (of_char CHR ''%'' :: nat)" "of_char c \<noteq> (of_char CHR ''%'' :: nat)"
      using up by auto
    then show ?thesis by auto
  next
    case False
    then show ?thesis by (simp add: same)
  qed
  show "lower_char c = CHR ''_'' \<longleftrightarrow> c = CHR ''_''"
  proof (cases "(65::nat) \<le> of_char c \<and> of_char c \<le> (90::nat)")
    case True
    then have "of_char (lower_char c) \<noteq> (of_char CHR ''_'' :: nat)" "of_char c \<noteq> (of_char CHR ''_'' :: nat)"
      using up by auto
    then show ?thesis by auto
  next
    case False
    then show ?thesis by (simp add: same)
  qed
  show "lower_char c = CHR 0x5C \<longleftrightarrow> c = CHR 0x5C"
  proof (cases "(65::nat) \<le> of_char c \<and> of_char c \<le> (90::nat)")
    case True
    then have "of_char (lower_char c) \<noteq> (of_char (CHR 0x5C) :: nat)" "of_char c \<noteq> (of_char (CHR 0x5C) :: nat)"
      using up by auto
    then show ?thesis by auto
  next
    case False
    then show ?thesis by (simp add: same)
  qed
qed

lemma plain_query_lower: "plain_query q \<Longrightarrow> plain_query (lower q)"
  by (induction q) (simp_all add: plain_query_def lower_def lower_char_plain)

lemma like_parse_plain:
  "plain_query s \<Longrightarrow> like_parse (s @ ''%'') = Some (map Lit s @ [AnySeq])"
  by (induction s rule: like_parse.induct) (auto simp: plain_query_def like_tok_of_def)

lemma like_match_prefix: "like_match (map Lit q @ [AnySeq]) s = starts_with s q"
proof (induction s q rule: starts_with.induct)
  case (1 s)
  have "like_match [AnySeq] t" for t by (induction t) simp_all
  then show ?case by simp
next
  case (2 c q)
  then show ?case by simp
next
  case (3 x s c q)
  then show ?case by auto
qed

lemma like_match_contains: "like_match (AnySeq # map Lit q @ [AnySeq]) s = contains s q"
proof (induction s)
  case Nil
  have "starts_with [] q = (q = [])" by (cases q) simp_all
  then show ?case by (simp add: like_match_prefix)
next
  case (Cons x s)
  then show ?case by (simp add: like_match_prefix)
qed

lemma ilike_plain:
  assumes "plain_query q"
  shows "ilike s (''%'' @ q @ ''%'') = Inr (contains (lower s) (lower q))"
proof -
  have low: "lower (CHR ''%'' # q @ ''%'') = CHR ''%'' # lower q @ ''%''"
    by (simp add: lower_def lower_char_def)
  have "like_parse (CHR ''%'' # lower q @ ''%'') = Some (AnySeq # map Lit (lower q) @ [AnySeq])"
    using like_parse_plain [OF plain_query_lower [OF assms]]
    by (cases "lower q @ ''%''") (simp_all add: like_tok_of_def)
  then show ?thesis by (simp add: ilike_def low like_match_contains)
qed

lemma search_clause_plain:
  "plain_query q \<Longrightarrow> search_clause q r = Inr (spec_search_clause q r)"
  by (simp add: search_clause_def spec_search_clause_def ilike_plain ilike_plain [simplified]
        split: option.splits)

lemma select_where_total:
  "(\<And>x. p x = Inr (P x)) \<Longrightarrow> select_where p xs = Inr (filter P xs)"
  by (induction xs) simp_all

lemma browse_recipes_plain:
  assumes "plain_query q" and "q \<noteq> []" and "0 \<le> skip" and "0 \<le> limit"
  shows "\<exists>page. browse_recipes db (Some q) skip limit None =
            Inr \<lparr>recipes_page = map (\<lambda>r. to_response r False) page, total = int (length page)\<rparr>
          \<and> page = take (nat limit) (drop (nat skip) (filter (spec_search_clause q) (recipes db)))"
  using assms
  by (simp add: browse_recipes_def select_where_total [where P = "spec_search_clause q"]
        search_clause_plain Let_def)

end
